theory Spec2Isabelle
  imports Complex_Main
begin

section \<open>Monte Carlo integration (task2.py)\<close>

text \<open>
  A shallow embedding of \<^verbatim>\<open>integral_mc\<close> and \<^verbatim>\<open>usage_example\<close>.
  Inside the finite range a Python float is idealised as the real number it
  stands for (no rounding); \<open>integral_mc\<close> reads the whole function that way.
  \<open>integral_mc_fl\<close> and \<open>usage_example\<close> add what leaves the reals: overflow to
  an infinity, NaN, and the division by zero of Python and of numpy scalars. The
  module-level generator of Python's \<^verbatim>\<open>random\<close> is shared mutable state: it is
  threaded through every function explicitly, and the library's own operations
  (\<^verbatim>\<open>random.seed\<close>, \<^verbatim>\<open>random.random\<close>) are parameters of the model.
\<close>

subsection \<open>Values and exceptions\<close>

text \<open>
  The arguments \<^verbatim>\<open>points_number\<close> and \<^verbatim>\<open>xmax\<close> are untyped in the source; the
  guards inspect their sign and their class. The model covers the numeric values a
  caller can pass: \<^verbatim>\<open>int\<close>, \<^verbatim>\<open>float\<close>, \<^verbatim>\<open>bool\<close> (a subclass of \<^verbatim>\<open>int\<close>),
  \<^verbatim>\<open>fractions.Fraction\<close> (ordered against 0, neither \<^verbatim>\<open>int\<close> nor \<^verbatim>\<open>float\<close>)
  and \<^verbatim>\<open>numpy.float64\<close> (a subclass of \<^verbatim>\<open>float\<close> with numpy's arithmetic).
\<close>

datatype pyval = PInt int | PFloat real | PBool bool | PFrac rat | PNpFloat real

datatype 'e error = ValueError string | TypeError | ZeroDivisionError | Raised 'e

text \<open>\<^verbatim>\<open>v < 0\<close>\<close>

fun py_lt0 :: "pyval \<Rightarrow> bool" where
  "py_lt0 (PInt i) = (i < 0)"
| "py_lt0 (PFloat r) = (r < 0)"
| "py_lt0 (PBool b) = False"
| "py_lt0 (PFrac q) = (q < 0)"
| "py_lt0 (PNpFloat r) = (r < 0)"

text \<open>\<^verbatim>\<open>isinstance(v, int)\<close>\<close>

fun isinstance_int :: "pyval \<Rightarrow> bool" where
  "isinstance_int (PInt i) = True"
| "isinstance_int (PFloat r) = False"
| "isinstance_int (PBool b) = True"
| "isinstance_int (PFrac q) = False"
| "isinstance_int (PNpFloat r) = False"

text \<open>\<^verbatim>\<open>isinstance(v, (int, float))\<close>\<close>

fun isinstance_int_float :: "pyval \<Rightarrow> bool" where
  "isinstance_int_float (PInt i) = True"
| "isinstance_int_float (PFloat r) = True"
| "isinstance_int_float (PBool b) = True"
| "isinstance_int_float (PFrac q) = False"
| "isinstance_int_float (PNpFloat r) = True"

text \<open>\<^verbatim>\<open>isinstance(v, numpy.float64)\<close>\<close>

fun isinstance_np_float :: "pyval \<Rightarrow> bool" where
  "isinstance_np_float (PNpFloat r) = True"
| "isinstance_np_float v = False"

text \<open>
  The integer that \<^verbatim>\<open>range(v)\<close> iterates to; \<^verbatim>\<open>range\<close> raises \<^verbatim>\<open>TypeError\<close>
  on a value that is no integer.
\<close>

fun index_of :: "pyval \<Rightarrow> int option" where
  "index_of (PInt i) = Some i"
| "index_of (PFloat r) = None"
| "index_of (PBool b) = Some (if b then 1 else 0)"
| "index_of (PFrac q) = None"
| "index_of (PNpFloat r) = None"

text \<open>The numeric value of an argument used as a float.\<close>

fun to_real :: "pyval \<Rightarrow> real" where
  "to_real (PInt i) = real_of_int i"
| "to_real (PFloat r) = r"
| "to_real (PBool b) = (if b then 1 else 0)"
| "to_real (PFrac q) = of_rat q"
| "to_real (PNpFloat r) = r"

subsection \<open>Floats outside the finite range\<close>

text \<open>
  The value of a float expression: a finite number, an infinity or NaN. A result
  whose magnitude exceeds the largest finite double becomes an infinity (neither
  Python's nor numpy's \<^verbatim>\<open>*\<close>, \<^verbatim>\<open>-\<close> and \<^verbatim>\<open>/\<close> raise on overflow); a result inside the
  range is the exact real. Signed zeros are not told apart.
\<close>

datatype pyfloat = Finite real | PosInf | NegInf | NaN

definition max_float :: real where
  "max_float = (2 ^ 53 - 1) * 2 ^ 971"

definition fl_round :: "real \<Rightarrow> pyfloat" where
  "fl_round r =
     (if max_float < r then PosInf else if r < - max_float then NegInf else Finite r)"

text \<open>An infinity multiplied by a finite value \<open>s\<close>, or divided by a non-zero one.\<close>

definition inf_times :: "real \<Rightarrow> pyfloat" where
  "inf_times s = (if s = 0 then NaN else if 0 < s then PosInf else NegInf)"

text \<open>\<^verbatim>\<open>a * b\<close>\<close>

fun fl_mul :: "pyfloat \<Rightarrow> pyfloat \<Rightarrow> pyfloat" where
  "fl_mul (Finite a) (Finite b) = fl_round (a * b)"
| "fl_mul NaN y = NaN"
| "fl_mul x NaN = NaN"
| "fl_mul (Finite a) PosInf = inf_times a"
| "fl_mul (Finite a) NegInf = inf_times (- a)"
| "fl_mul PosInf (Finite b) = inf_times b"
| "fl_mul NegInf (Finite b) = inf_times (- b)"
| "fl_mul PosInf PosInf = PosInf"
| "fl_mul PosInf NegInf = NegInf"
| "fl_mul NegInf PosInf = NegInf"
| "fl_mul NegInf NegInf = PosInf"

text \<open>\<^verbatim>\<open>a - b\<close> for a finite \<open>a\<close>\<close>

fun fl_sub :: "real \<Rightarrow> pyfloat \<Rightarrow> pyfloat" where
  "fl_sub a (Finite b) = fl_round (a - b)"
| "fl_sub a PosInf = NegInf"
| "fl_sub a NegInf = PosInf"
| "fl_sub a NaN = NaN"

text \<open>\<^verbatim>\<open>abs(a)\<close>\<close>

fun fl_abs :: "pyfloat \<Rightarrow> pyfloat" where
  "fl_abs (Finite a) = Finite \<bar>a\<bar>"
| "fl_abs PosInf = PosInf"
| "fl_abs NegInf = PosInf"
| "fl_abs NaN = NaN"

text \<open>\<^verbatim>\<open>a / b\<close> for a finite, non-zero \<open>b\<close>\<close>

fun fl_div :: "pyfloat \<Rightarrow> real \<Rightarrow> pyfloat" where
  "fl_div (Finite a) b = fl_round (a / b)"
| "fl_div PosInf b = inf_times b"
| "fl_div NegInf b = inf_times (- b)"
| "fl_div NaN b = NaN"

text \<open>\<^verbatim>\<open>a <= b\<close>: every comparison with NaN is false.\<close>

fun fl_le :: "pyfloat \<Rightarrow> pyfloat \<Rightarrow> bool" where
  "fl_le NaN y = False"
| "fl_le x NaN = False"
| "fl_le (Finite a) (Finite b) = (a \<le> b)"
| "fl_le NegInf y = True"
| "fl_le x PosInf = True"
| "fl_le x NegInf = False"
| "fl_le PosInf y = False"

text \<open>
  \<^verbatim>\<open>a / b\<close> with \<open>a\<close> and \<open>b\<close> Python floats: Python raises
  \<^verbatim>\<open>ZeroDivisionError\<close> on a zero divisor, whatever the dividend.
\<close>

definition py_truediv :: "pyfloat \<Rightarrow> real \<Rightarrow> 'e error + pyfloat" where
  "py_truediv a b = (if b = 0 then Inl ZeroDivisionError else Inr (fl_div a b))"

text \<open>
  \<^verbatim>\<open>a / b\<close> with \<open>a\<close> a \<^verbatim>\<open>numpy.float64\<close>: numpy warns and returns NaN for
  0 / 0 and an infinity for any other dividend; it never raises.
\<close>

definition np_truediv :: "pyfloat \<Rightarrow> real \<Rightarrow> pyfloat" where
  "np_truediv a b =
     (if b = 0
      then (case a of Finite v \<Rightarrow> inf_times v | PosInf \<Rightarrow> PosInf | NegInf \<Rightarrow> NegInf
            | NaN \<Rightarrow> NaN)
      else fl_div a b)"

subsection \<open>The shared random generator\<close>

text \<open>
  \<^verbatim>\<open>random.seed(s)\<close> replaces the state of the module's generator by one that depends
  on \<open>s\<close> only; \<^verbatim>\<open>random.random()\<close> returns the next float and advances the state.
\<close>

record 'g random_module =
  seed_state :: "int \<Rightarrow> 'g"
  next_random :: "'g \<Rightarrow> real \<times> 'g"

text \<open>\<^verbatim>\<open>random.uniform(a, b)\<close> is \<^verbatim>\<open>a + (b - a) * random()\<close>.\<close>

definition uniform :: "'g random_module \<Rightarrow> real \<Rightarrow> real \<Rightarrow> 'g \<Rightarrow> real \<times> 'g" where
  "uniform R a b g = (case next_random R g of (u, g') \<Rightarrow> (a + (b - a) * u, g'))"

text \<open>\<^verbatim>\<open>if seed is not None: random.seed(seed)\<close>\<close>

definition seed_rng :: "'g random_module \<Rightarrow> int option \<Rightarrow> 'g \<Rightarrow> 'g" where
  "seed_rng R seed g = (case seed of None \<Rightarrow> g | Some s \<Rightarrow> seed_state R s)"

text \<open>The state of the generator after \<open>k\<close> calls of \<^verbatim>\<open>random.random()\<close>.\<close>

fun advance :: "'g random_module \<Rightarrow> nat \<Rightarrow> 'g \<Rightarrow> 'g" where
  "advance R 0 g = g"
| "advance R (Suc k) g = advance R k (snd (next_random R g))"

text \<open>
  A small linear congruential generator on sixteen states, used to evaluate the
  model on concrete calls.
\<close>

definition example_rng :: "nat random_module" where
  "example_rng =
     \<lparr> seed_state = (\<lambda>s. nat \<bar>s\<bar> mod 16),
       next_random = (\<lambda>g. (real ((5 * g + 3) mod 16) / 16, (5 * g + 3) mod 16)) \<rparr>"

subsection \<open>\<^verbatim>\<open>integral_mc\<close>\<close>

text \<open>
  The counting expression
  \<^verbatim>\<open>sum(1 for _ in range(points_number)
        if random.uniform(0, ymax) <= func(random.uniform(0, xmax)))\<close>
  as a loop with an accumulator. Each round draws \<open>y\<close> first (the left operand of
  the comparison), then \<open>x\<close>, then calls \<open>func\<close>; an exception of \<open>func\<close> ends
  the loop at once.
\<close>

fun count_loop ::
  "'g random_module \<Rightarrow> real \<Rightarrow> real \<Rightarrow> (real \<Rightarrow> 'e + real) \<Rightarrow> nat \<Rightarrow> nat \<Rightarrow> 'g
     \<Rightarrow> ('e + nat) \<times> 'g" where
  "count_loop R xmax ymax func 0 acc g = (Inr acc, g)"
| "count_loop R xmax ymax func (Suc k) acc g =
     (case uniform R 0 ymax g of (y, g1) \<Rightarrow>
      case uniform R 0 xmax g1 of (x, g2) \<Rightarrow>
      case func x of
        Inl e \<Rightarrow> (Inl e, g2)
      | Inr fx \<Rightarrow> count_loop R xmax ymax func k (if y \<le> fx then acc + 1 else acc) g2)"

definition integral_mc ::
  "'g random_module \<Rightarrow> real \<Rightarrow> real \<Rightarrow> (real \<Rightarrow> 'e + real) \<Rightarrow> pyval \<Rightarrow> int option \<Rightarrow> 'g
     \<Rightarrow> ('e error + real) \<times> 'g" where
  "integral_mc R xmax ymax func points_number seed g =
     (if py_lt0 points_number \<or> \<not> isinstance_int points_number
      then (Inl (ValueError ''points_number must be a positive integer''), g)
      else
        let g0 = seed_rng R seed g in
        case index_of points_number of
          None \<Rightarrow> (Inl TypeError, g0)
        | Some n \<Rightarrow>
            (case count_loop R xmax ymax func (nat n) 0 g0 of
               (Inl e, g1) \<Rightarrow> (Inl (Raised e), g1)
             | (Inr points_under_curve, g1) \<Rightarrow>
                 let rectangle_area = xmax * ymax in
                 if n = 0 then (Inl ZeroDivisionError, g1)
                 else (Inr (real points_under_curve / real_of_int n * rectangle_area), g1)))"

text \<open>
  The number of points under the curve that a call counts, before it is scaled: the
  value of \<^verbatim>\<open>points_under_curve\<close> of a call that passes the guard.
\<close>

definition under_curve_count ::
  "'g random_module \<Rightarrow> real \<Rightarrow> real \<Rightarrow> (real \<Rightarrow> 'e + real) \<Rightarrow> int \<Rightarrow> int option \<Rightarrow> 'g
     \<Rightarrow> 'e + nat" where
  "under_curve_count R xmax ymax func n seed g =
     fst (count_loop R xmax ymax func (nat n) 0 (seed_rng R seed g))"

text \<open>
  \<^verbatim>\<open>integral_mc\<close> again, with the float arithmetic of its last two lines:
  \<^verbatim>\<open>rectangle_area = xmax * ymax\<close> can overflow, and the product with the fraction
  of points under the curve is then an infinity or NaN. The fraction itself lies
  between 0 and 1.
\<close>

definition integral_mc_fl ::
  "'g random_module \<Rightarrow> real \<Rightarrow> real \<Rightarrow> (real \<Rightarrow> 'e + real) \<Rightarrow> pyval \<Rightarrow> int option \<Rightarrow> 'g
     \<Rightarrow> ('e error + pyfloat) \<times> 'g" where
  "integral_mc_fl R xmax ymax func points_number seed g =
     (if py_lt0 points_number \<or> \<not> isinstance_int points_number
      then (Inl (ValueError ''points_number must be a positive integer''), g)
      else
        let g0 = seed_rng R seed g in
        case index_of points_number of
          None \<Rightarrow> (Inl TypeError, g0)
        | Some n \<Rightarrow>
            (case count_loop R xmax ymax func (nat n) 0 g0 of
               (Inl e, g1) \<Rightarrow> (Inl (Raised e), g1)
             | (Inr points_under_curve, g1) \<Rightarrow>
                 let rectangle_area = fl_mul (Finite xmax) (Finite ymax) in
                 if n = 0 then (Inl ZeroDivisionError, g1)
                 else
                   (Inr (fl_mul (Finite (real points_under_curve / real_of_int n))
                           rectangle_area),
                    g1)))"

subsection \<open>The sampled points\<close>

text \<open>
  The points that \<open>k\<close> rounds of the loop draw from state \<open>g\<close>, each with the
  generator state after it: the specification's Point Sampler.
\<close>

fun points :: "'g random_module \<Rightarrow> real \<Rightarrow> real \<Rightarrow> nat \<Rightarrow> 'g \<Rightarrow> (real \<times> real \<times> 'g) list" where
  "points R xmax ymax 0 g = []"
| "points R xmax ymax (Suc k) g =
     (case uniform R 0 ymax g of (y, g1) \<Rightarrow>
      case uniform R 0 xmax g1 of (x, g2) \<Rightarrow>
      (x, y, g2) # points R xmax ymax k g2)"

text \<open>A point is under the curve iff \<open>y \<le> func x\<close>.\<close>

definition under_curve :: "(real \<Rightarrow> 'e + real) \<Rightarrow> real \<times> real \<times> 'g \<Rightarrow> bool" where
  "under_curve func p =
     (case p of (x, y, g) \<Rightarrow> (case func x of Inl e \<Rightarrow> False | Inr fx \<Rightarrow> y \<le> fx))"

definition faults :: "(real \<Rightarrow> 'e + real) \<Rightarrow> real \<times> real \<times> 'g \<Rightarrow> bool" where
  "faults func p = (case p of (x, y, g) \<Rightarrow> isl (func x))"

subsection \<open>\<^verbatim>\<open>usage_example\<close>\<close>

text \<open>
  What \<^verbatim>\<open>usage_example\<close> prints, with the numbers it formats. The reference
  integrator \<^verbatim>\<open>scipy.integrate.quad\<close> is a parameter; it returns a Python float.
  The model ends with the three report lines; the plot that follows them is outside
  it.
\<close>

datatype printed =
    XmaxMessage
  | MonteCarloLine pyfloat
  | IntegralLine real
  | DifferenceLine pyfloat

text \<open>
  What \<open>func\<close> returns: a Python float, or a \<^verbatim>\<open>numpy.float64\<close> (as
  \<^verbatim>\<open>numpy.sqrt\<close> does).
\<close>

datatype number = PyFloat real | NpFloat real

fun number_value :: "number \<Rightarrow> real" where
  "number_value (PyFloat r) = r"
| "number_value (NpFloat r) = r"

fun is_numpy :: "number \<Rightarrow> bool" where
  "is_numpy (PyFloat r) = False"
| "is_numpy (NpFloat r) = True"

text \<open>
  \<^verbatim>\<open>abs(analytical_result - monte_carlo_result) / analytical_result * 100\<close>.
  The estimate is \<^verbatim>\<open>(points_under_curve / points_number) * (xmax * ymax)\<close>: it is a
  \<^verbatim>\<open>numpy.float64\<close> as soon as \<open>xmax\<close> or \<open>ymax\<close> is one, and so are then the
  difference and its absolute value, and the division is numpy's.
\<close>

definition difference_percent :: "bool \<Rightarrow> real \<Rightarrow> pyfloat \<Rightarrow> 'e error + pyfloat" where
  "difference_percent numpy analytical_result monte_carlo_result =
     (let d = fl_abs (fl_sub analytical_result monte_carlo_result) in
      if numpy then Inr (fl_mul (np_truediv d analytical_result) (Finite 100))
      else
        case py_truediv d analytical_result of
          Inl e \<Rightarrow> Inl e
        | Inr q \<Rightarrow> Inr (fl_mul q (Finite 100)))"

definition usage_example ::
  "'g random_module \<Rightarrow> ((real \<Rightarrow> 'e + number) \<Rightarrow> real \<Rightarrow> real \<Rightarrow> 'e error + real)
     \<Rightarrow> pyval \<Rightarrow> pyval \<Rightarrow> (real \<Rightarrow> 'e + number) \<Rightarrow> 'g
     \<Rightarrow> ('e error + unit) \<times> printed list \<times> 'g" where
  "usage_example R quad xmax points_number func g =
     (if py_lt0 xmax \<or> \<not> isinstance_int_float xmax
      then (Inr (), [XmaxMessage], g)
      else
        case quad func 0 (to_real xmax) of
          Inl e \<Rightarrow> (Inl e, [], g)
        | Inr analytical_result \<Rightarrow>
        case func (to_real xmax) of
          Inl e \<Rightarrow> (Inl (Raised e), [], g)
        | Inr ymax \<Rightarrow>
        case integral_mc_fl R (to_real xmax) (number_value ymax)
               (\<lambda>x. map_sum id number_value (func x)) points_number None g of
          (Inl e, g') \<Rightarrow> (Inl e, [], g')
        | (Inr monte_carlo_result, g') \<Rightarrow>
        case difference_percent (isinstance_np_float xmax \<or> is_numpy ymax)
               analytical_result monte_carlo_result of
          Inl e \<Rightarrow> (Inl e, [], g')
        | Inr d \<Rightarrow>
            (Inr (),
             [MonteCarloLine monte_carlo_result, IntegralLine analytical_result,
              DifferenceLine d],
             g'))"

subsection \<open>Example functions\<close>

text \<open>
  Functions to integrate and reference integrators for the concrete calls below:
  \<open>twice\<close> never raises, \<open>broken\<close> raises from \<open>x = 1\<close> on; \<open>as_python\<close> and
  \<open>as_numpy\<close> say which kind of float a function returns; \<open>no_quad\<close> integrates
  over an empty interval only, and \<open>fixed_quad v\<close> returns \<open>v\<close>.
\<close>

definition twice :: "real \<Rightarrow> unit + real" where
  "twice x = Inr (2 * x)"

definition broken :: "real \<Rightarrow> string + real" where
  "broken x = (if x < 1 then Inr (2 * x) else Inl ''math domain error'')"

definition as_python :: "(real \<Rightarrow> 'e + real) \<Rightarrow> real \<Rightarrow> 'e + number" where
  "as_python f x = map_sum id PyFloat (f x)"

definition as_numpy :: "(real \<Rightarrow> 'e + real) \<Rightarrow> real \<Rightarrow> 'e + number" where
  "as_numpy f x = map_sum id NpFloat (f x)"

definition no_quad :: "(real \<Rightarrow> unit + number) \<Rightarrow> real \<Rightarrow> real \<Rightarrow> unit error + real" where
  "no_quad func a b = (if a = b then Inr 0 else Inl TypeError)"

definition fixed_quad ::
  "real \<Rightarrow> (real \<Rightarrow> unit + number) \<Rightarrow> real \<Rightarrow> real \<Rightarrow> unit error + real" where
  "fixed_quad v func a b = Inr v"

section \<open>The counting loop and the sampled points\<close>

lemma snd_uniform: "snd (uniform R a b g) = snd (next_random R g)"
  by (simp add: uniform_def split: prod.split)

lemma length_points: "length (points R xmax ymax k g) = k"
  by (induction k arbitrary: g) (simp_all split: prod.split)

lemma count_loop_points:
  "count_loop R xmax ymax func k acc g =
     (case find (faults func) (points R xmax ymax k g) of
        Some p \<Rightarrow> (Inl (projl (func (fst p))), snd (snd p))
      | None \<Rightarrow>
          (Inr (acc + length (filter (under_curve func) (points R xmax ymax k g))),
           advance R (2 * k) g))"
proof (induction k arbitrary: acc g)
  case 0
  show ?case by simp
next
  case (Suc k)
  obtain y g1 where y: "uniform R 0 ymax g = (y, g1)"
    by (cases "uniform R 0 ymax g")
  obtain x g2 where x: "uniform R 0 xmax g1 = (x, g2)"
    by (cases "uniform R 0 xmax g1")
  have g1: "g1 = snd (next_random R g)"
    using y snd_uniform [of R 0 ymax g] by simp
  have g2: "g2 = snd (next_random R g1)"
    using x snd_uniform [of R 0 xmax g1] by simp
  have adv: "advance R (2 * Suc k) g = advance R (2 * k) g2"
    by (simp add: g1 g2)
  have pts: "points R xmax ymax (Suc k) g = (x, y, g2) # points R xmax ymax k g2"
    by (simp add: y x)
  have loop: "count_loop R xmax ymax func (Suc k) acc g =
      (case func x of
         Inl e \<Rightarrow> (Inl e, g2)
       | Inr fx \<Rightarrow> count_loop R xmax ymax func k (if y \<le> fx then acc + 1 else acc) g2)"
    by (simp add: y x)
  show ?case
  proof (cases "func x")
    case (Inl e)
    then have "faults func (x, y, g2)"
      by (simp add: faults_def)
    then show ?thesis
      unfolding loop pts using Inl by simp
  next
    case (Inr fx)
    then have nf: "\<not> faults func (x, y, g2)"
      by (simp add: faults_def)
    have uc: "under_curve func (x, y, g2) = (y \<le> fx)"
      using Inr by (simp add: under_curve_def)
    show ?thesis
      unfolding loop pts adv Suc.IH
      using Inr nf uc by (simp split: option.split)
  qed
qed


lemma integral_mc_PInt:
  "0 < n \<Longrightarrow>
   integral_mc R xmax ymax func (PInt n) seed g =
     (case find (faults func) (points R xmax ymax (nat n) (seed_rng R seed g)) of
        Some p \<Rightarrow> (Inl (Raised (projl (func (fst p)))), snd (snd p))
      | None \<Rightarrow>
          (Inr (real (length (filter (under_curve func)
                  (points R xmax ymax (nat n) (seed_rng R seed g))))
                / real_of_int n * (xmax * ymax)),
           advance R (2 * nat n) (seed_rng R seed g)))"
  by (simp add: integral_mc_def Let_def count_loop_points split: option.split)



section \<open>The estimate\<close>



lemma next_random_example:
  "next_random example_rng g = (real ((5 * g + 3) mod 16) / 16, (5 * g + 3) mod 16)"
  by (simp add: example_rng_def)

lemma seed_state_example: "seed_state example_rng s = nat \<bar>s\<bar> mod 16"
  by (simp add: example_rng_def)

lemmas example_eval =
  numeral_2_eq_2 seed_rng_def uniform_def next_random_example seed_state_example

lemma points_example:
  "points example_rng 2 3 2 (seed_rng example_rng (Some 7) 0) =
     [(1 / 8, 9 / 8, 1), (11 / 8, 3 / 2, 11)]"
  by (simp add: example_eval)


section \<open>Bounds of the estimate\<close>

subsection \<open>The real and the float reading of \<^verbatim>\<open>integral_mc\<close>\<close>

lemma max_float_large: "2 ^ 1000 \<le> max_float"
  by (simp add: max_float_def)

lemma max_float_small: "max_float < 2 ^ 1024"
  by (simp add: max_float_def)

lemma fl_round_Finite: "\<bar>r\<bar> \<le> max_float \<Longrightarrow> fl_round r = Finite r"
  by (auto simp: fl_round_def)

lemma fl_round_small: "\<bar>r\<bar> \<le> 2 ^ 1000 \<Longrightarrow> fl_round r = Finite r"
  using max_float_large by (intro fl_round_Finite) linarith

lemma integral_mc_fl_PInt:
  "0 < n \<Longrightarrow>
   integral_mc_fl R xmax ymax func (PInt n) seed g =
     (case find (faults func) (points R xmax ymax (nat n) (seed_rng R seed g)) of
        Some p \<Rightarrow> (Inl (Raised (projl (func (fst p)))), snd (snd p))
      | None \<Rightarrow>
          (Inr (fl_mul
                  (Finite (real (length (filter (under_curve func)
                     (points R xmax ymax (nat n) (seed_rng R seed g))))
                   / real_of_int n))
                  (fl_mul (Finite xmax) (Finite ymax))),
           advance R (2 * nat n) (seed_rng R seed g)))"
  by (simp add: integral_mc_fl_def Let_def count_loop_points split: option.split)

lemma overflow_area: "fl_mul (Finite (2 ^ 600)) (Finite (2 ^ 600)) = PosInf"
proof -
  have "(2::real) ^ 600 * 2 ^ 600 = 2 ^ 1200"
    by (simp add: power_add [symmetric])
  moreover have "(2::real) ^ 1024 \<le> 2 ^ 1200"
    by (rule power_increasing) simp_all
  ultimately have "max_float < 2 ^ 600 * 2 ^ 600"
    using max_float_small by linarith
  then show ?thesis
    by (simp only: fl_mul.simps fl_round_def if_True)
qed

lemma count_loop_le:
  assumes "count_loop R xmax ymax func k acc g = (Inr c, g')"
  shows "c \<le> acc + k"
proof -
  have "length (filter (under_curve func) (points R xmax ymax k g)) \<le> k"
    using length_filter_le [of "under_curve func" "points R xmax ymax k g"]
    by (simp add: length_points)
  then show ?thesis
    using assms by (auto simp: count_loop_points split: option.splits)
qed

lemma scaled_in_range:
  assumes "area = xmax * ymax" and "\<bar>area\<bar> \<le> max_float" and "c \<le> nat n" and "0 < n"
  shows "fl_mul (Finite (real c / real_of_int n)) (fl_mul (Finite xmax) (Finite ymax)) =
         Finite (real c / real_of_int n * area)"
proof -
  have a: "fl_mul (Finite xmax) (Finite ymax) = Finite area"
    using assms(1,2) by (simp add: fl_round_Finite)
  have "real c \<le> real_of_int n"
    using assms(3,4) by linarith
  then have "real c / real_of_int n \<le> 1" and "0 \<le> real c / real_of_int n"
    using assms(4) by (simp_all add: divide_le_eq_1)
  then have "\<bar>real c / real_of_int n * area\<bar> \<le> 1 * \<bar>area\<bar>"
    unfolding abs_mult by (intro mult_right_mono) simp_all
  then have "\<bar>real c / real_of_int n * area\<bar> \<le> max_float"
    using assms(2) by linarith
  then show ?thesis
    unfolding a by (simp add: fl_round_Finite)
qed

text \<open>
  Where the area is finite the two readings agree: what is proved of \<open>integral_mc\<close>
  then holds of \<open>integral_mc_fl\<close>, with the estimate a finite float.
\<close>

lemma integral_mc_fl_agrees:
  assumes "\<bar>xmax * ymax\<bar> \<le> max_float"
  shows "integral_mc_fl R xmax ymax func points_number seed g =
           (map_sum id Finite (fst (integral_mc R xmax ymax func points_number seed g)),
            snd (integral_mc R xmax ymax func points_number seed g))"
proof (cases "py_lt0 points_number \<or> \<not> isinstance_int points_number")
  case True
  then show ?thesis
    by (simp add: integral_mc_fl_def integral_mc_def)
next
  case False
  then obtain n where n: "index_of points_number = Some n" and n0: "0 \<le> n"
    by (cases points_number) auto
  obtain r g1 where cl: "count_loop R xmax ymax func (nat n) 0 (seed_rng R seed g) = (r, g1)"
    by (cases "count_loop R xmax ymax func (nat n) 0 (seed_rng R seed g)")
  show ?thesis
  proof (cases r)
    case (Inl e)
    then show ?thesis
      using False n cl by (simp add: integral_mc_fl_def integral_mc_def)
  next
    case (Inr c)
    show ?thesis
    proof (cases "n = 0")
      case True
      then show ?thesis
        using False n cl Inr by (simp add: integral_mc_fl_def integral_mc_def)
    next
      case nz: False
      with n0 have pos: "0 < n" by simp
      have "c \<le> nat n"
        using count_loop_le [of R xmax ymax func "nat n" 0 "seed_rng R seed g" c g1] cl Inr
        by simp
      from scaled_in_range [OF refl assms this pos]
      show ?thesis
        using False n cl Inr nz
        by (simp add: integral_mc_fl_def integral_mc_def del: fl_mul.simps)
    qed
  qed
qed

subsection \<open>Claim C4\<close>

text \<open>
  Claim C4 says that every call with positive arguments returns an estimate between
  0 and \<open>xmax\<close> \<times> \<open>ymax\<close>. With \<open>xmax = ymax = 2 ^ 600\<close> the area overflows to
  infinity; one point is drawn from state 2 and lies above the curve, and the call
  returns 0 \<times> infinity, which is NaN: neither comparison holds.
\<close>

theorem integral_mc_overflow_unbounded:
  "(0::int) < 1 \<and> (0::real) < 2 ^ 600 \<and>
   integral_mc_fl example_rng (2 ^ 600) (2 ^ 600) twice (PInt 1) None 2 = (Inr NaN, 4) \<and>
   \<not> fl_le (Finite 0) NaN \<and>
   \<not> fl_le NaN (fl_mul (Finite (2 ^ 600)) (Finite (2 ^ 600)))"
proof -
  have r: "integral_mc_fl example_rng (2 ^ 600) (2 ^ 600) twice (PInt 1) None 2 = (Inr NaN, 4)"
    unfolding integral_mc_fl_def Let_def overflow_area
    by (simp add: seed_rng_def uniform_def next_random_example twice_def inf_times_def)
  show ?thesis
    using r by simp
qed


text \<open>
  Claim C4, amended: for a positive integer number of points, positive \<open>xmax\<close> and
  \<open>ymax\<close> whose product does not exceed the largest finite float, and a function
  that returns a value at every sampled point, the count of points under the curve
  is at most the number of points, and the estimate is finite and lies between 0 and
  \<open>xmax\<close> \<times> \<open>ymax\<close>.
\<close>

theorem integral_mc_bounded:
  assumes "0 < n" and "0 < xmax" and "0 < ymax"
    and "xmax * ymax \<le> max_float"
    and "find (faults func) (points R xmax ymax (nat n) (seed_rng R seed g)) = None"
  shows "\<exists>c v. under_curve_count R xmax ymax func n seed g = Inr c \<and> c \<le> nat n \<and>
           fst (integral_mc_fl R xmax ymax func (PInt n) seed g) = Inr (Finite v) \<and>
           v = real c / real_of_int n * (xmax * ymax) \<and>
           0 \<le> v \<and> v \<le> xmax * ymax \<and>
           fl_le (Finite 0) (Finite v) \<and>
           fl_le (Finite v) (fl_mul (Finite xmax) (Finite ymax))"
proof -
  let ?ps = "points R xmax ymax (nat n) (seed_rng R seed g)"
  let ?c = "length (filter (under_curve func) ?ps)"
  let ?v = "real ?c / real_of_int n * (xmax * ymax)"
  have c: "under_curve_count R xmax ymax func n seed g = Inr ?c"
    using assms(5) by (simp add: under_curve_count_def count_loop_points)
  have le: "?c \<le> nat n"
    using length_filter_le [of "under_curve func" ?ps] by (simp add: length_points)
  have area: "0 \<le> xmax * ymax"
    using assms(2,3) by simp
  have frac0: "0 \<le> real ?c / real_of_int n"
    using assms(1) by simp
  have "real ?c \<le> real_of_int n"
    using le assms(1) by linarith
  then have frac1: "real ?c / real_of_int n \<le> 1"
    using assms(1) by (simp add: divide_le_eq_1)
  have lo: "0 \<le> ?v"
    using frac0 area by (rule mult_nonneg_nonneg)
  have hi: "?v \<le> xmax * ymax"
    using mult_right_mono [OF frac1 area] by simp
  have a: "fl_mul (Finite xmax) (Finite ymax) = Finite (xmax * ymax)"
    using area assms(4) by (simp add: fl_round_Finite)
  have "\<bar>?v\<bar> \<le> max_float"
    using lo hi assms(4) by linarith
  then have m: "fl_mul (Finite (real ?c / real_of_int n)) (Finite (xmax * ymax)) = Finite ?v"
    by (simp add: fl_round_Finite)
  have "fst (integral_mc_fl R xmax ymax func (PInt n) seed g) =
      Inr (fl_mul (Finite (real ?c / real_of_int n)) (fl_mul (Finite xmax) (Finite ymax)))"
    using assms(1,5) by (simp add: integral_mc_fl_PInt del: fl_mul.simps)
  then have v: "fst (integral_mc_fl R xmax ymax func (PInt n) seed g) = Inr (Finite ?v)"
    by (simp only: a m)
  have f0: "fl_le (Finite 0) (Finite ?v)"
    using lo by simp
  have f1: "fl_le (Finite ?v) (fl_mul (Finite xmax) (Finite ymax))"
    unfolding a using hi by simp
  show ?thesis
    using c le v lo hi f0 f1 by blast
qed

theorem integral_mc_bounded_witness:
  "under_curve_count example_rng 2 3 twice 2 (Some 7) 0 = Inr 1 \<and>
   fst (integral_mc_fl example_rng 2 3 twice (PInt 2) (Some 7) 0) = Inr (Finite 3) \<and>
   (0::real) \<le> 3 \<and> (3::real) \<le> 2 * 3"
proof -
  have h: "find (faults twice) (points example_rng 2 3 (nat 2) (seed_rng example_rng (Some 7) 0)) = None"
    by (simp add: points_example faults_def twice_def)
  have a: "(2::real) * 3 \<le> max_float"
    using max_float_large by simp
  have c: "under_curve_count example_rng 2 3 twice 2 (Some 7) 0 = Inr 1"
    by (simp add: under_curve_count_def example_eval twice_def)
  show ?thesis
    using integral_mc_bounded [of 2 2 3 twice example_rng "Some 7" 0, OF _ _ _ a h] c
    by auto
qed

section \<open>Exceptions of the integrated function\<close>

text \<open>
  Claim C8: for a positive integer number of points, if the function raises at a
  sampled point, the call fails with the exception of the first such point, with the
  generator where that point left it (nothing is drawn afterwards, nothing is
  returned); if it raises at no sampled point, the call returns the estimate over
  all the points.
\<close>

theorem integral_mc_fault_propagates:
  assumes "0 < n"
  shows "(\<forall>p. find (faults func) (points R xmax ymax (nat n) (seed_rng R seed g)) = Some p \<longrightarrow>
            (\<exists>e. func (fst p) = Inl e \<and>
               integral_mc R xmax ymax func (PInt n) seed g = (Inl (Raised e), snd (snd p)))) \<and>
         (find (faults func) (points R xmax ymax (nat n) (seed_rng R seed g)) = None \<longrightarrow>
            integral_mc R xmax ymax func (PInt n) seed g =
              (Inr (real (length (filter (under_curve func)
                      (points R xmax ymax (nat n) (seed_rng R seed g))))
                    / real_of_int n * (xmax * ymax)),
               advance R (2 * nat n) (seed_rng R seed g)))"
proof (intro conjI allI impI)
  fix p
  assume p: "find (faults func) (points R xmax ymax (nat n) (seed_rng R seed g)) = Some p"
  then have "faults func p"
    by (auto simp: find_Some_iff)
  then obtain e where e: "func (fst p) = Inl e"
    by (cases "func (fst p)") (auto simp: faults_def split: prod.splits)
  have "integral_mc R xmax ymax func (PInt n) seed g = (Inl (Raised e), snd (snd p))"
    using assms p e by (simp add: integral_mc_PInt)
  with e show "\<exists>e. func (fst p) = Inl e \<and>
      integral_mc R xmax ymax func (PInt n) seed g = (Inl (Raised e), snd (snd p))"
    by blast
next
  assume "find (faults func) (points R xmax ymax (nat n) (seed_rng R seed g)) = None"
  then show "integral_mc R xmax ymax func (PInt n) seed g =
      (Inr (real (length (filter (under_curve func)
              (points R xmax ymax (nat n) (seed_rng R seed g))))
            / real_of_int n * (xmax * ymax)),
       advance R (2 * nat n) (seed_rng R seed g))"
    using assms by (simp add: integral_mc_PInt)
qed

theorem integral_mc_fault_propagates_witness:
  "find (faults broken) (points example_rng 2 3 2 (seed_rng example_rng (Some 7) 0)) =
     Some (11 / 8, 3 / 2, 11) \<and>
   broken (11 / 8) = Inl ''math domain error'' \<and>
   integral_mc example_rng 2 3 broken (PInt 2) (Some 7) 0 =
     (Inl (Raised ''math domain error''), 11) \<and>
   find (faults twice) (points example_rng 2 3 2 (seed_rng example_rng (Some 7) 0)) = None \<and>
   integral_mc example_rng 2 3 twice (PInt 2) (Some 7) 0 = (Inr 3, 11)"
proof -
  have h: "(0::int) < 2" by simp
  have f: "find (faults broken) (points example_rng 2 3 2 (seed_rng example_rng (Some 7) 0)) =
      Some (11 / 8, 3 / 2, 11)"
    by (simp add: points_example faults_def broken_def)
  have b: "broken (11 / 8) = Inl ''math domain error''"
    by (simp add: broken_def)
  have t: "find (faults twice) (points example_rng 2 3 2 (seed_rng example_rng (Some 7) 0)) = None"
    by (simp add: points_example faults_def twice_def)
  have four: "2 * nat 2 = Suc (Suc (Suc (Suc 0)))"
    by simp
  have a: "advance example_rng (2 * nat 2) (seed_rng example_rng (Some 7) 0) = 11"
    unfolding four by (simp add: seed_rng_def next_random_example seed_state_example)
  have u: "length (filter (under_curve twice)
      (points example_rng 2 3 2 (seed_rng example_rng (Some 7) 0))) = 1"
    by (simp add: points_example under_curve_def twice_def)
  have f': "find (faults broken) (points example_rng 2 3 (nat 2) (seed_rng example_rng (Some 7) 0)) =
      Some (11 / 8, 3 / 2, 11)"
    using f by simp
  have t': "find (faults twice) (points example_rng 2 3 (nat 2) (seed_rng example_rng (Some 7) 0)) = None"
    using t by simp
  have u': "length (filter (under_curve twice)
      (points example_rng 2 3 (nat 2) (seed_rng example_rng (Some 7) 0))) = 1"
    using u by simp
  from integral_mc_fault_propagates [OF h, of broken example_rng 2 3 "Some 7" 0] f'
  have "\<exists>e. broken (fst (11 / 8 :: real, 3 / 2 :: real, 11 :: nat)) = Inl e \<and>
      integral_mc example_rng 2 3 broken (PInt 2) (Some 7) 0 =
        (Inl (Raised e), snd (snd (11 / 8 :: real, 3 / 2 :: real, 11 :: nat)))"
    by blast
  then have r1: "integral_mc example_rng 2 3 broken (PInt 2) (Some 7) 0 =
      (Inl (Raised ''math domain error''), 11)"
    using b by simp
  from integral_mc_fault_propagates [OF h, of twice example_rng 2 3 "Some 7" 0] t'
  have "integral_mc example_rng 2 3 twice (PInt 2) (Some 7) 0 =
      (Inr (real (length (filter (under_curve twice)
              (points example_rng 2 3 (nat 2) (seed_rng example_rng (Some 7) 0))))
            / real_of_int 2 * (2 * 3)),
       advance example_rng (2 * nat 2) (seed_rng example_rng (Some 7) 0))"
    by blast
  then have r2: "integral_mc example_rng 2 3 twice (PInt 2) (Some 7) 0 = (Inr 3, 11)"
    unfolding u' a by simp
  show ?thesis
    using f b r1 t r2 by blast
qed


section \<open>The guard on the number of points\<close>

text \<open>
  Claim C9: with \<open>points_number = 0\<close> the guard does not reject the call, no point
  is drawn, and the call fails with \<^verbatim>\<open>ZeroDivisionError\<close> at the final division
  (after the optional seeding).
\<close>

theorem integral_mc_zero_points:
  "\<not> (py_lt0 (PInt 0) \<or> \<not> isinstance_int (PInt 0)) \<and>
   points R xmax ymax (nat 0) (seed_rng R seed g) = [] \<and>
   integral_mc R xmax ymax func (PInt 0) seed g = (Inl ZeroDivisionError, seed_rng R seed g)"
  by (simp add: integral_mc_def)

theorem integral_mc_zero_points_witness:
  "integral_mc example_rng 2 3 broken (PInt 0) (Some 7) 0 = (Inl ZeroDivisionError, 7) \<and>
   integral_mc example_rng 2 3 broken (PInt 0) None 0 = (Inl ZeroDivisionError, 0)"
  using integral_mc_zero_points [of example_rng 2 3 "Some 7" 0 broken]
    integral_mc_zero_points [of example_rng 2 3 None 0 broken]
  by (simp add: seed_rng_def seed_state_example)

text \<open>
  Claim C1 says that a number of points of 0 fails with the invalid-argument error
  (\<^verbatim>\<open>ValueError\<close>), as the error message \<^emph>\<open>must be a positive integer\<close> does.
  The guard tests \<open>< 0\<close>: at 0 the call fails with \<^verbatim>\<open>ZeroDivisionError\<close>
  instead, and not with \<^verbatim>\<open>ValueError\<close>.
\<close>

theorem integral_mc_zero_not_rejected:
  "fst (integral_mc R xmax ymax func (PInt 0) seed g) = Inl ZeroDivisionError \<and>
   fst (integral_mc R xmax ymax func (PInt 0) seed g) \<noteq>
     Inl (ValueError ''points_number must be a positive integer'')"
  by (simp add: integral_mc_def)

lemma integral_mc_rejects_negative_and_float:
  "integral_mc R xmax ymax func (PInt (- 5)) seed g =
     (Inl (ValueError ''points_number must be a positive integer''), g) \<and>
   integral_mc R xmax ymax func (PFloat (7 / 2)) seed g =
     (Inl (ValueError ''points_number must be a positive integer''), g)"
  by (simp add: integral_mc_def)

lemma integral_mc_one_point:
  "integral_mc example_rng 2 3 twice (PInt 1) (Some 7) 0 = (Inr 0, 1)"
  by (simp add: integral_mc_def seed_rng_def uniform_def next_random_example
      seed_state_example twice_def)

section \<open>Seeding\<close>

text \<open>
  Claim C3: with a seed supplied, the result of a call is the same whatever state
  the generator was in before the call, so two calls with the same arguments and
  seed return the same result.
\<close>

theorem integral_mc_seeded_deterministic:
  "fst (integral_mc R xmax ymax func points_number (Some s) g1) =
   fst (integral_mc R xmax ymax func points_number (Some s) g2)"
  by (simp add: integral_mc_def seed_rng_def Let_def split: option.split prod.split sum.split)

theorem integral_mc_seeded_deterministic_witness:
  "fst (integral_mc example_rng 2 3 twice (PInt 2) (Some 7) 0) =
   fst (integral_mc example_rng 2 3 twice (PInt 2) (Some 7) 9) \<and>
   fst (integral_mc example_rng 2 3 twice (PInt 2) (Some 7) 9) = Inr 3"
proof -
  have "fst (integral_mc example_rng 2 3 twice (PInt 2) (Some 7) 0) = Inr 3"
    by (simp add: integral_mc_def example_eval twice_def)
  then show ?thesis
    using integral_mc_seeded_deterministic [of example_rng 2 3 twice "PInt 2" 7 0 9]
    by simp
qed

text \<open>
  Claim C6: a call that the guard rejects returns the generator as it found it:
  the rejection comes before \<^verbatim>\<open>random.seed\<close> and before any draw. Conversely a
  call that ends in \<^verbatim>\<open>ValueError\<close> has left the generator unchanged.
\<close>

theorem integral_mc_rejection_keeps_generator:
  "(py_lt0 points_number \<or> \<not> isinstance_int points_number \<longrightarrow>
      integral_mc R xmax ymax func points_number seed g =
        (Inl (ValueError ''points_number must be a positive integer''), g)) \<and>
   (\<forall>m. fst (integral_mc R xmax ymax func points_number seed g) = Inl (ValueError m) \<longrightarrow>
      snd (integral_mc R xmax ymax func points_number seed g) = g)"
  by (auto simp: integral_mc_def Let_def split: option.splits prod.splits sum.splits if_splits)

theorem integral_mc_rejection_keeps_generator_witness:
  "py_lt0 (PInt (- 5)) \<and>
   integral_mc example_rng 2 3 twice (PInt (- 5)) (Some 7) 0 =
     (Inl (ValueError ''points_number must be a positive integer''), 0) \<and>
   \<not> isinstance_int (PFloat (7 / 2)) \<and>
   integral_mc example_rng 2 3 twice (PFloat (7 / 2)) (Some 7) 0 =
     (Inl (ValueError ''points_number must be a positive integer''), 0)"
  using integral_mc_rejection_keeps_generator [of "PInt (- 5)" example_rng 2 3 twice "Some 7" 0]
    integral_mc_rejection_keeps_generator [of "PFloat (7 / 2)" example_rng 2 3 twice "Some 7" 0]
  by simp


section \<open>The comparison in \<^verbatim>\<open>usage_example\<close>\<close>

lemma difference_percent_nonzero:
  assumes "a \<noteq> 0" and "\<bar>a - m\<bar> \<le> max_float" and "\<bar>a - m\<bar> / \<bar>a\<bar> * 100 \<le> max_float"
  shows "difference_percent numpy a (Finite m) = Inr (Finite (\<bar>a - m\<bar> / a * 100))"
proof -
  have s: "fl_sub a (Finite m) = Finite (a - m)"
    using assms(2) by (simp add: fl_round_Finite)
  have q: "x \<le> x * 100" if "0 \<le> x" for x :: real
    using that by simp
  have "\<bar>a - m\<bar> / \<bar>a\<bar> \<le> \<bar>a - m\<bar> / \<bar>a\<bar> * 100"
    by (rule q) simp
  then have "\<bar>\<bar>a - m\<bar> / a\<bar> \<le> max_float"
    using assms(3) by simp
  then have d: "fl_div (Finite \<bar>a - m\<bar>) a = Finite (\<bar>a - m\<bar> / a)"
    by (simp add: fl_round_Finite)
  have "\<bar>\<bar>a - m\<bar> / a * 100\<bar> \<le> max_float"
    using assms(3) by (simp add: abs_mult)
  then have p: "fl_mul (Finite (\<bar>a - m\<bar> / a)) (Finite 100) = Finite (\<bar>a - m\<bar> / a * 100)"
    by (simp add: fl_round_Finite)
  show ?thesis
    unfolding difference_percent_def Let_def s fl_abs.simps py_truediv_def np_truediv_def
    using assms(1) by (simp only: d p if_False sum.case if_cancel)
qed

lemma difference_percent_zero_python:
  "difference_percent False 0 m = Inl ZeroDivisionError"
  by (simp add: difference_percent_def py_truediv_def)

lemma max_float_pos: "0 < max_float"
  by (simp add: max_float_def)

lemma difference_percent_zero_numpy:
  "difference_percent True 0 (Finite m) = Inr (if m = 0 then NaN else PosInf)"
  using max_float_pos
  by (auto simp: difference_percent_def np_truediv_def fl_round_def inf_times_def)

lemma integral_mc_fl_empty_interval:
  "integral_mc_fl example_rng 0 0 f (PInt 1) None 0 =
     (case f 0 of Inl e \<Rightarrow> (Inl (Raised e), 2) | Inr fx \<Rightarrow> (Inr (Finite (if 0 \<le> fx then 0 else 0)), 2))"
  by (simp add: integral_mc_fl_def seed_rng_def uniform_def next_random_example fl_round_small
      split: sum.split)

text \<open>
  Claim C5 says that a reference of exactly zero makes the comparison fail. The
  division is Python's only when the estimate is a Python float. With \<open>xmax\<close> a
  \<^verbatim>\<open>numpy.float64\<close> zero, or a function that returns \<^verbatim>\<open>numpy.float64\<close> values,
  the estimate is a numpy scalar: the division returns NaN, nothing is raised, and
  \<^verbatim>\<open>usage_example\<close> prints its three lines and returns normally.
\<close>

theorem usage_example_numpy_zero_reference:
  "usage_example example_rng no_quad (PNpFloat 0) (PInt 1) (as_python twice) 0 =
     (Inr (), [MonteCarloLine (Finite 0), IntegralLine 0, DifferenceLine NaN], 2) \<and>
   usage_example example_rng no_quad (PFloat 0) (PInt 1) (as_numpy twice) 0 =
     (Inr (), [MonteCarloLine (Finite 0), IntegralLine 0, DifferenceLine NaN], 2) \<and>
   fst (usage_example example_rng no_quad (PNpFloat 0) (PInt 1) (as_python twice) 0) \<noteq>
     Inl ZeroDivisionError"
  by (simp add: usage_example_def no_quad_def as_python_def as_numpy_def twice_def
      integral_mc_fl_empty_interval difference_percent_zero_numpy)

text \<open>
  Claim C5, amended: after the reference and the estimate are computed,
  \<^verbatim>\<open>usage_example\<close> reports \<open>\<bar>reference - estimate\<bar> / reference * 100\<close> when the
  reference is not zero and no step overflows. With a reference of exactly zero it
  fails with \<^verbatim>\<open>ZeroDivisionError\<close>, having printed nothing, when neither \<open>xmax\<close>
  nor \<open>func(xmax)\<close> is a numpy scalar; when one of them is, nothing is raised and
  the reported difference is NaN (estimate 0) or infinity.
\<close>

theorem usage_example_difference:
  assumes "\<not> (py_lt0 xmax \<or> \<not> isinstance_int_float xmax)"
    and "quad func 0 (to_real xmax) = Inr a"
    and "func (to_real xmax) = Inr ymax"
    and "integral_mc_fl R (to_real xmax) (number_value ymax)
           (\<lambda>x. map_sum id number_value (func x)) points_number None g = (Inr mc, g')"
  shows "(a \<noteq> 0 \<and> mc = Finite m \<and> \<bar>a - m\<bar> \<le> max_float \<and>
          \<bar>a - m\<bar> / \<bar>a\<bar> * 100 \<le> max_float \<longrightarrow>
            usage_example R quad xmax points_number func g =
              (Inr (),
               [MonteCarloLine (Finite m), IntegralLine a,
                DifferenceLine (Finite (\<bar>a - m\<bar> / a * 100))],
               g')) \<and>
         (a = 0 \<and> \<not> isinstance_np_float xmax \<and> \<not> is_numpy ymax \<longrightarrow>
            usage_example R quad xmax points_number func g = (Inl ZeroDivisionError, [], g')) \<and>
         (a = 0 \<and> (isinstance_np_float xmax \<or> is_numpy ymax) \<and> mc = Finite m \<longrightarrow>
            usage_example R quad xmax points_number func g =
              (Inr (),
               [MonteCarloLine (Finite m), IntegralLine 0,
                DifferenceLine (if m = 0 then NaN else PosInf)],
               g'))"
proof -
  have u: "usage_example R quad xmax points_number func g =
      (case difference_percent (isinstance_np_float xmax \<or> is_numpy ymax) a mc of
         Inl e \<Rightarrow> (Inl e, [], g')
       | Inr d \<Rightarrow> (Inr (), [MonteCarloLine mc, IntegralLine a, DifferenceLine d], g'))"
    using assms by (simp add: usage_example_def)
  show ?thesis
    unfolding u
    by (auto simp: difference_percent_nonzero difference_percent_zero_python
        difference_percent_zero_numpy)
qed

lemma integral_mc_fl_example_one:
  "integral_mc_fl example_rng 2 4 (\<lambda>x. map_sum id number_value (as_python twice x))
     (PInt 1) None 1 = (Inr (Finite 8), 11)"
  by (simp add: integral_mc_fl_def seed_rng_def uniform_def next_random_example
      as_python_def twice_def fl_round_small)

lemma integral_mc_fl_example_zero:
  "integral_mc_fl example_rng 0 0 (\<lambda>x. map_sum id number_value (as_python twice x))
     (PInt 1) None 0 = (Inr (Finite 0), 2)"
  by (simp add: integral_mc_fl_empty_interval as_python_def twice_def)

theorem usage_example_difference_witness:
  "usage_example example_rng (fixed_quad 10) (PFloat 2) (PInt 1) (as_python twice) 1 =
     (Inr (), [MonteCarloLine (Finite 8), IntegralLine 10, DifferenceLine (Finite 20)], 11) \<and>
   usage_example example_rng (fixed_quad 0) (PFloat 0) (PInt 1) (as_python twice) 0 =
     (Inl ZeroDivisionError, [], 2) \<and>
   usage_example example_rng (fixed_quad 0) (PNpFloat 0) (PInt 1) (as_python twice) 0 =
     (Inr (), [MonteCarloLine (Finite 0), IntegralLine 0, DifferenceLine NaN], 2)"
proof -
  have g2: "\<not> (py_lt0 (PFloat 2) \<or> \<not> isinstance_int_float (PFloat 2))" by simp
  have q2: "fixed_quad 10 (as_python twice) 0 (to_real (PFloat 2)) = Inr 10"
    by (simp add: fixed_quad_def)
  have f2: "as_python twice (to_real (PFloat 2)) = Inr (PyFloat 4)"
    by (simp add: as_python_def twice_def)
  have i2: "integral_mc_fl example_rng (to_real (PFloat 2)) (number_value (PyFloat 4))
      (\<lambda>x. map_sum id number_value (as_python twice x)) (PInt 1) None 1 = (Inr (Finite 8), 11)"
    using integral_mc_fl_example_one by simp
  have b: "\<bar>10 - 8 :: real\<bar> \<le> max_float \<and> \<bar>10 - 8 :: real\<bar> / \<bar>10\<bar> * 100 \<le> max_float"
    using max_float_large by simp
  have r1: "usage_example example_rng (fixed_quad 10) (PFloat 2) (PInt 1) (as_python twice) 1 =
      (Inr (), [MonteCarloLine (Finite 8), IntegralLine 10, DifferenceLine (Finite 20)], 11)"
    using usage_example_difference
      [where quad = "fixed_quad 10" and func = "as_python twice" and xmax = "PFloat 2"
         and m = 8, OF g2 q2 f2 i2] b
    by simp
  have g0: "\<not> (py_lt0 (PFloat 0) \<or> \<not> isinstance_int_float (PFloat 0))" by simp
  have q0: "fixed_quad 0 (as_python twice) 0 (to_real (PFloat 0)) = Inr 0"
    by (simp add: fixed_quad_def)
  have f0: "as_python twice (to_real (PFloat 0)) = Inr (PyFloat 0)"
    by (simp add: as_python_def twice_def)
  have i0: "integral_mc_fl example_rng (to_real (PFloat 0)) (number_value (PyFloat 0))
      (\<lambda>x. map_sum id number_value (as_python twice x)) (PInt 1) None 0 = (Inr (Finite 0), 2)"
    using integral_mc_fl_example_zero by simp
  have r2: "usage_example example_rng (fixed_quad 0) (PFloat 0) (PInt 1) (as_python twice) 0 =
      (Inl ZeroDivisionError, [], 2)"
    using usage_example_difference
      [where quad = "fixed_quad 0" and func = "as_python twice" and xmax = "PFloat 0"
         and m = 0, OF g0 q0 f0 i0]
    by simp
  have gn: "\<not> (py_lt0 (PNpFloat 0) \<or> \<not> isinstance_int_float (PNpFloat 0))" by simp
  have qn: "fixed_quad 0 (as_python twice) 0 (to_real (PNpFloat 0)) = Inr 0"
    by (simp add: fixed_quad_def)
  have fn: "as_python twice (to_real (PNpFloat 0)) = Inr (PyFloat 0)"
    by (simp add: as_python_def twice_def)
  have "integral_mc_fl example_rng (to_real (PNpFloat 0)) (number_value (PyFloat 0))
      (\<lambda>x. map_sum id number_value (as_python twice x)) (PInt 1) None 0 = (Inr (Finite 0), 2)"
    using integral_mc_fl_example_zero by simp
  from usage_example_difference
    [where quad = "fixed_quad 0" and func = "as_python twice" and xmax = "PNpFloat 0"
       and m = 0, OF gn qn fn this]
  have r3: "usage_example example_rng (fixed_quad 0) (PNpFloat 0) (PInt 1) (as_python twice) 0 =
      (Inr (), [MonteCarloLine (Finite 0), IntegralLine 0, DifferenceLine NaN], 2)"
    by simp
  show ?thesis
    using r1 r2 r3 by blast
qed

text \<open>
  Claim C10: with a negative \<open>xmax\<close>, \<^verbatim>\<open>usage_example\<close> prints its message and
  returns normally, leaving the generator alone; \<open>xmax = 0\<close> passes the guard, and
  the call goes on to the reference integrator.
\<close>

theorem usage_example_negative_xmax:
  "(py_lt0 xmax \<longrightarrow> usage_example R quad xmax points_number func g = (Inr (), [XmaxMessage], g)) \<and>
   \<not> (py_lt0 (PInt 0) \<or> \<not> isinstance_int_float (PInt 0)) \<and>
   \<not> (py_lt0 (PFloat 0) \<or> \<not> isinstance_int_float (PFloat 0)) \<and>
   fst (snd (usage_example R quad (PInt 0) points_number func g)) \<noteq> [XmaxMessage] \<and>
   fst (snd (usage_example R quad (PFloat 0) points_number func g)) \<noteq> [XmaxMessage] \<and>
   (quad func 0 0 = Inl e \<longrightarrow>
      usage_example R quad (PFloat 0) points_number func g = (Inl e, [], g))"
  by (simp add: usage_example_def split: sum.split prod.split)

theorem usage_example_negative_xmax_witness:
  "py_lt0 (PFloat (- 1)) \<and>
   usage_example example_rng no_quad (PFloat (- 1)) (PInt 1) (as_python twice) 0 =
     (Inr (), [XmaxMessage], 0) \<and>
   usage_example example_rng no_quad (PFloat 0) (PInt 1) (as_python twice) 0 =
     (Inl ZeroDivisionError, [], 2)"
proof -
  have z: "usage_example example_rng no_quad (PFloat 0) (PInt 1) (as_python twice) 0 =
      (Inl ZeroDivisionError, [], 2)"
    by (simp add: usage_example_def no_quad_def as_python_def twice_def
        integral_mc_fl_empty_interval difference_percent_zero_python)
  show ?thesis
    using usage_example_negative_xmax
      [of "PFloat (- 1)" example_rng no_quad "PInt 1" "as_python twice" 0] z
    by simp
qed

section \<open>The generator is shared between calls\<close>

text \<open>
  Claim C7 says that a seeded call cannot change what a later call returns. The
  generator is the module's: on the example generator, a call without a seed
  returns 1 from state 5, but 0 when a call seeded with 0 ran before it, and 1
  again when that earlier call was seeded with 1.
\<close>

theorem seeded_call_perturbs_later_call:
  "fst (integral_mc example_rng 1 1 twice (PInt 1) None
          (snd (integral_mc example_rng 1 1 twice (PInt 1) (Some 0) 5))) \<noteq>
   fst (integral_mc example_rng 1 1 twice (PInt 1) None 5) \<and>
   fst (integral_mc example_rng 1 1 twice (PInt 1) None
          (snd (integral_mc example_rng 1 1 twice (PInt 1) (Some 0) 5))) \<noteq>
   fst (integral_mc example_rng 1 1 twice (PInt 1) None
          (snd (integral_mc example_rng 1 1 twice (PInt 1) (Some 1) 5)))"
  by (simp add: integral_mc_def seed_rng_def uniform_def next_random_example
      seed_state_example twice_def)

text \<open>
  Claim C7, amended: a seeded call that passes the guard re-seeds the shared
  generator and, when the function raises at no sampled point, leaves it two draws
  per point beyond the seeded state, whatever its state was before; a later call
  without a seed starts from that state, and a later call with a seed of its own
  returns what it would have returned without the earlier call.
\<close>

theorem seeded_call_reseeds_shared_generator:
  assumes "0 \<le> n"
    and "find (faults func) (points R xmax ymax (nat n) (seed_state R s)) = None"
  shows "snd (integral_mc R xmax ymax func (PInt n) (Some s) g) =
           advance R (2 * nat n) (seed_state R s) \<and>
         integral_mc R xmax2 ymax2 func2 points_number2 None
             (snd (integral_mc R xmax ymax func (PInt n) (Some s) g)) =
           integral_mc R xmax2 ymax2 func2 points_number2 None
             (advance R (2 * nat n) (seed_state R s)) \<and>
         fst (integral_mc R xmax2 ymax2 func2 points_number2 (Some s2)
             (snd (integral_mc R xmax ymax func (PInt n) (Some s) g))) =
           fst (integral_mc R xmax2 ymax2 func2 points_number2 (Some s2) g)"
proof -
  have st: "snd (integral_mc R xmax ymax func (PInt n) (Some s) g) =
      advance R (2 * nat n) (seed_state R s)"
  proof (cases "n = 0")
    case True
    then show ?thesis
      by (simp add: integral_mc_def seed_rng_def)
  next
    case False
    with assms(1) have "0 < n" by simp
    then show ?thesis
      using assms(2) by (simp add: integral_mc_PInt seed_rng_def)
  qed
  have det: "fst (integral_mc R xmax2 ymax2 func2 points_number2 (Some s2)
        (snd (integral_mc R xmax ymax func (PInt n) (Some s) g))) =
      fst (integral_mc R xmax2 ymax2 func2 points_number2 (Some s2) g)"
    by (simp add: integral_mc_def seed_rng_def Let_def split: option.split prod.split sum.split)
  show ?thesis
    using st det by simp
qed

theorem seeded_call_reseeds_shared_generator_witness:
  "snd (integral_mc example_rng 1 1 twice (PInt 1) (Some 0) 5) = 2 \<and>
   integral_mc example_rng 1 1 twice (PInt 1) None
       (snd (integral_mc example_rng 1 1 twice (PInt 1) (Some 0) 5)) = (Inr 0, 4) \<and>
   integral_mc example_rng 1 1 twice (PInt 1) None 5 = (Inr 1, 15)"
proof -
  have h1: "(0::int) \<le> 1" by simp
  have h2: "find (faults twice) (points example_rng 1 1 (nat 1) (seed_state example_rng 0)) = None"
    by (simp add: faults_def twice_def uniform_def split: prod.split)
  have a: "advance example_rng (2 * nat 1) (seed_state example_rng 0) = 2"
    by (simp add: numeral_2_eq_2 next_random_example seed_state_example)
  have r: "integral_mc example_rng 1 1 twice (PInt 1) None 2 = (Inr 0, 4)"
    by (simp add: integral_mc_def seed_rng_def uniform_def next_random_example twice_def)
  have r0: "integral_mc example_rng 1 1 twice (PInt 1) None 5 = (Inr 1, 15)"
    by (simp add: integral_mc_def seed_rng_def uniform_def next_random_example twice_def)
  show ?thesis
    using seeded_call_reseeds_shared_generator
      [OF h1 h2, where g = 5 and ?xmax2.0 = 1 and ?ymax2.0 = 1 and ?func2.0 = twice
         and ?points_number2.0 = "PInt 1"] a r r0
    by simp
qed

end
